theory Spec2Isabelle
  imports Main
begin

section \<open>The type model\<close>

text \<open>
  Modelled from the spec: the closed algebra of types of section 3 (\<open>cty.Type\<close> is
  declared in package \<open>cty\<close>, outside the sources at hand). \<open>NilType\<close> is the absent
  type, the zero value of \<open>cty.Type\<close>, which is none of the variants. An Object is its
  attributes, each a name with a type, and the set of the names of the attributes that
  are declared optional (section 4.3, and the comment in the Object branch of
  \<open>dynamicReplace\<close>); \<open>cty.Object\<close> builds an Object from the attributes alone, none
  of them optional. The attribute map is kept as an association list, in the order in
  which one run of the program ranges over it; the names of a type that the program
  can build are distinct, and \<open>map_of\<close> is the lookup (\<open>Type.HasAttribute\<close>,
  \<open>Type.AttributeType\<close>).
\<close>

datatype primitive = Text | Number | Boolean

datatype ctype =
    NilType
  | DynamicPseudoType
  | Primitive primitive
  | Capsule string
  | List ctype
  | Set ctype
  | Map ctype
  | Tuple "ctype list"
  | Object "(string \<times> ctype) list" "string set"

text \<open>
  A panic of the program is a value: \<open>Unrecognized_type\<close> is the panic of the default
  branch of \<open>dynamicReplace\<close>; the other two are those of the accessor
  \<open>TupleElementType\<close>, which the tuple loop calls on \<open>in\<close> without a test of its variant.
\<close>

datatype fault = Unrecognized_type | Not_a_tuple | Index_out_of_range

text \<open>
  Modelled from the spec: the accessor \<open>Type.TupleElementType\<close> of the type model
  (section 4.1), declared in package \<open>cty\<close>, outside the sources at hand. It reads the
  element type at a position of a tuple type. The doc comment of \<open>dynamicReplace\<close> says
  that the function panics when it finds \<open>in\<close> and \<open>out\<close> incompatible: on a type that is
  not a tuple, and on a position past the arity (an index out of the range of a Go
  slice), the accessor panics.
\<close>

fun TupleElementType :: "ctype \<Rightarrow> nat \<Rightarrow> fault + ctype" where
  "TupleElementType (Tuple ts) ix = (if ix < length ts then Inr (ts ! ix) else Inl Index_out_of_range)"
| "TupleElementType _ ix = Inl Not_a_tuple"

text \<open>
  Modelled from the spec: the classification predicates of the type model (section 4.1),
  the \<open>Type.IsMapType\<close>, \<open>Type.IsObjectType\<close>, \<open>Type.IsSetType\<close>, \<open>Type.IsListType\<close>,
  \<open>Type.IsTupleType\<close>, \<open>Type.IsPrimitiveType\<close> and \<open>Type.IsCapsuleType\<close> that the
  source calls and that are declared outside the sources at hand.
\<close>

fun IsMapType :: "ctype \<Rightarrow> bool" where
  "IsMapType (Map e) = True"
| "IsMapType _ = False"

fun IsObjectType :: "ctype \<Rightarrow> bool" where
  "IsObjectType (Object as opt) = True"
| "IsObjectType _ = False"

fun IsSetType :: "ctype \<Rightarrow> bool" where
  "IsSetType (Set e) = True"
| "IsSetType _ = False"

fun IsListType :: "ctype \<Rightarrow> bool" where
  "IsListType (List e) = True"
| "IsListType _ = False"

fun IsTupleType :: "ctype \<Rightarrow> bool" where
  "IsTupleType (Tuple ts) = True"
| "IsTupleType _ = False"

fun IsPrimitiveType :: "ctype \<Rightarrow> bool" where
  "IsPrimitiveType (Primitive p) = True"
| "IsPrimitiveType _ = False"

fun IsCapsuleType :: "ctype \<Rightarrow> bool" where
  "IsCapsuleType (Capsule c) = True"
| "IsCapsuleType _ = False"

text \<open>
  Modelled from the spec: \<open>unify\<close> on the inputs whose result the spec fixes without
  its widening rules (section 8: \<open>Unify([A])\<close> returns \<open>A\<close>): types that are all equal
  unify to that type. On anything else this stand-in fails, with the absent type for a
  result, which the \<open>unify\<close> of the program need not. It serves in the closed examples
  only: every theorem below is stated for an arbitrary \<open>U\<close>.
\<close>

fun unifyExact :: "ctype list \<Rightarrow> bool \<Rightarrow> ctype \<times> unit" where
  "unifyExact [] unsafe = (NilType, ())"
| "unifyExact (t # ts) unsafe = (if list_all (\<lambda>u. u = t) ts then (t, ()) else (NilType, ()))"

section \<open>Deferred fixup\<close>

text \<open>
  \<open>dynamicFixup\<close>. The values, the paths and the errors of the program, \<open>Convert\<close>,
  \<open>Path.NewError\<close> and the nil value \<open>cty.NilVal\<close> are declared outside the sources at
  hand: they are type variables and parameters here. A Go result \<open>(cty.Value, error)\<close>
  is a pair whose second component is \<open>None\<close> for the nil error.
\<close>

definition dynamicFixup ::
  "('v \<Rightarrow> ctype \<Rightarrow> 'v \<times> 'e option) \<Rightarrow> ('p \<Rightarrow> 'e \<Rightarrow> 'e) \<Rightarrow> 'v \<Rightarrow> ctype \<Rightarrow> 'v \<Rightarrow> 'p \<Rightarrow> 'v \<times> 'e option" where
  "dynamicFixup Convert NewError NilVal wantType =
    (\<lambda>val path.
       (case Convert val wantType of
          (ret, Some err) \<Rightarrow> (NilVal, Some (NewError path err))
        | (ret, None) \<Rightarrow> (ret, None)))"

section \<open>Structural placeholder replacement\<close>

text \<open>
  \<open>dynamicReplace\<close>, with \<open>unify\<close> (defined outside the sources at hand) as the
  parameter \<open>U\<close>: it takes the types and the unsafe flag and returns the unified type
  with the conversions, of which \<open>dynamicReplace\<close> keeps the type only. The switch on
  \<open>out\<close> is the outer case, its default branch the case of the absent type, the one
  type that none of the tests of the switch accepts. The tests on \<open>in\<close> inside a
  branch exclude one another, and a container whose \<open>elemType\<close> no test has set is
  built on the zero value of \<open>cty.Type\<close>, the absent type. The Object branch returns
  \<open>cty.Object(outTypes)\<close>, an Object without optional attributes, whatever \<open>out\<close>
  declares optional. The three loops of the source are the three auxiliary functions:
  over the attributes of an Object target against a Map source and against an Object
  source, and over the positions of a Tuple target.
\<close>

fun dynamicReplace :: "(ctype list \<Rightarrow> bool \<Rightarrow> ctype \<times> 'c) \<Rightarrow> ctype \<Rightarrow> ctype \<Rightarrow> fault + ctype"
  and replaceAttrsFromMap ::
    "(ctype list \<Rightarrow> bool \<Rightarrow> ctype \<times> 'c) \<Rightarrow> ctype \<Rightarrow> (string \<times> ctype) list \<Rightarrow> fault + (string \<times> ctype) list"
  and replaceAttrsFromObject ::
    "(ctype list \<Rightarrow> bool \<Rightarrow> ctype \<times> 'c) \<Rightarrow> (string \<times> ctype) list \<Rightarrow> (string \<times> ctype) list
      \<Rightarrow> fault + (string \<times> ctype) list"
  and replaceTupleElems ::
    "(ctype list \<Rightarrow> bool \<Rightarrow> ctype \<times> 'c) \<Rightarrow> ctype \<Rightarrow> nat \<Rightarrow> ctype list \<Rightarrow> fault + ctype list"
where
  "dynamicReplace U tin tout =
    (if tin = DynamicPseudoType \<or> tin = NilType then Inr tout
     else (case tout of
        DynamicPseudoType \<Rightarrow> Inr tin
      | Primitive p \<Rightarrow> Inr tout
      | Capsule c \<Rightarrow> Inr tout
      | Map oe \<Rightarrow>
          (case tin of
             Map ie \<Rightarrow>
               (case dynamicReplace U ie oe of Inl f \<Rightarrow> Inl f | Inr elemType \<Rightarrow> Inr (Map elemType))
           | Object ias iopt \<Rightarrow>
               (case dynamicReplace U (fst (U (map snd ias) True)) oe of
                  Inl f \<Rightarrow> Inl f | Inr elemType \<Rightarrow> Inr (Map elemType))
           | _ \<Rightarrow> Inr (Map NilType))
      | Object oas oopt \<Rightarrow>
          (case tin of
             Map ie \<Rightarrow>
               (case replaceAttrsFromMap U ie oas of Inl f \<Rightarrow> Inl f | Inr outTypes \<Rightarrow> Inr (Object outTypes {}))
           | Object ias iopt \<Rightarrow>
               (case replaceAttrsFromObject U ias oas of
                  Inl f \<Rightarrow> Inl f | Inr outTypes \<Rightarrow> Inr (Object outTypes {}))
           | _ \<Rightarrow> Inr (Object [] {}))
      | Set oe \<Rightarrow>
          (case tin of
             Set ie \<Rightarrow>
               (case dynamicReplace U ie oe of Inl f \<Rightarrow> Inl f | Inr elemType \<Rightarrow> Inr (Set elemType))
           | List ie \<Rightarrow>
               (case dynamicReplace U ie oe of Inl f \<Rightarrow> Inl f | Inr elemType \<Rightarrow> Inr (Set elemType))
           | Tuple ies \<Rightarrow>
               (case dynamicReplace U (fst (U ies True)) oe of
                  Inl f \<Rightarrow> Inl f | Inr elemType \<Rightarrow> Inr (Set elemType))
           | _ \<Rightarrow> Inr (Set NilType))
      | List oe \<Rightarrow>
          (case tin of
             Set ie \<Rightarrow>
               (case dynamicReplace U ie oe of Inl f \<Rightarrow> Inl f | Inr elemType \<Rightarrow> Inr (List elemType))
           | List ie \<Rightarrow>
               (case dynamicReplace U ie oe of Inl f \<Rightarrow> Inl f | Inr elemType \<Rightarrow> Inr (List elemType))
           | Tuple ies \<Rightarrow>
               (case dynamicReplace U (fst (U ies True)) oe of
                  Inl f \<Rightarrow> Inl f | Inr elemType \<Rightarrow> Inr (List elemType))
           | _ \<Rightarrow> Inr (List NilType))
      | Tuple oes \<Rightarrow>
          (case replaceTupleElems U tin 0 oes of Inl f \<Rightarrow> Inl f | Inr types \<Rightarrow> Inr (Tuple types))
      | NilType \<Rightarrow> Inl Unrecognized_type))"
| "replaceAttrsFromMap U ie [] = Inr []"
| "replaceAttrsFromMap U ie ((attr, attrType) # rest) =
    (case dynamicReplace U ie attrType of
       Inl f \<Rightarrow> Inl f
     | Inr t \<Rightarrow>
        (case replaceAttrsFromMap U ie rest of
           Inl f \<Rightarrow> Inl f
         | Inr outTypes \<Rightarrow> Inr ((attr, t) # outTypes)))"
| "replaceAttrsFromObject U ias [] = Inr []"
| "replaceAttrsFromObject U ias ((attr, attrType) # rest) =
    (case map_of ias attr of
       None \<Rightarrow>
        (case replaceAttrsFromObject U ias rest of
           Inl f \<Rightarrow> Inl f
         | Inr outTypes \<Rightarrow> Inr ((attr, attrType) # outTypes))
     | Some it \<Rightarrow>
        (case dynamicReplace U it attrType of
           Inl f \<Rightarrow> Inl f
         | Inr t \<Rightarrow>
            (case replaceAttrsFromObject U ias rest of
               Inl f \<Rightarrow> Inl f
             | Inr outTypes \<Rightarrow> Inr ((attr, t) # outTypes))))"
| "replaceTupleElems U tin ix [] = Inr []"
| "replaceTupleElems U tin ix (ot # rest) =
    (case TupleElementType tin ix of
       Inl f \<Rightarrow> Inl f
     | Inr it \<Rightarrow>
        (case dynamicReplace U it ot of
           Inl f \<Rightarrow> Inl f
         | Inr t \<Rightarrow>
            (case replaceTupleElems U tin (Suc ix) rest of
               Inl f \<Rightarrow> Inl f
             | Inr types \<Rightarrow> Inr (t # types))))"

declare dynamicReplace.simps [simp del]

section \<open>Predicates of the claims\<close>

text \<open>A type is free of placeholders when \<open>DynamicPseudoType\<close> occurs in it at no depth.\<close>

fun placeholderFree :: "ctype \<Rightarrow> bool" where
  "placeholderFree DynamicPseudoType = False"
| "placeholderFree (List e) = placeholderFree e"
| "placeholderFree (Set e) = placeholderFree e"
| "placeholderFree (Map e) = placeholderFree e"
| "placeholderFree (Tuple ts) = (\<forall>t \<in> set ts. placeholderFree t)"
| "placeholderFree (Object as opt) = (\<forall>(a, t) \<in> set as. placeholderFree t)"
| "placeholderFree _ = True"

text \<open>
  The variants that the switch of \<open>dynamicReplace\<close> handles, by the tests of its cases
  in their order; \<open>handledThroughout\<close> asks it of a type and of every type nested in it.
\<close>

definition handledVariant :: "ctype \<Rightarrow> bool" where
  "handledVariant t =
    (t = DynamicPseudoType \<or> IsPrimitiveType t \<or> IsCapsuleType t \<or> IsMapType t \<or>
     IsObjectType t \<or> IsSetType t \<or> IsListType t \<or> IsTupleType t)"

fun handledThroughout :: "ctype \<Rightarrow> bool" where
  "handledThroughout NilType = False"
| "handledThroughout (List e) = handledThroughout e"
| "handledThroughout (Set e) = handledThroughout e"
| "handledThroughout (Map e) = handledThroughout e"
| "handledThroughout (Tuple ts) = (\<forall>t \<in> set ts. handledThroughout t)"
| "handledThroughout (Object as opt) = (\<forall>(a, t) \<in> set as. handledThroughout t)"
| "handledThroughout _ = True"


text \<open>
  The optional-attribute markers of a type: \<open>optionalFree\<close> holds of a type in which
  no Object, at any depth, marks an attribute optional, and
  \<open>withoutOptionalAttributesDeep\<close> is a type with every marker removed, so that two types
  with the same image differ in their markers at most.
\<close>

fun optionalFree :: "ctype \<Rightarrow> bool" where
  "optionalFree (List e) = optionalFree e"
| "optionalFree (Set e) = optionalFree e"
| "optionalFree (Map e) = optionalFree e"
| "optionalFree (Tuple ts) = (\<forall>t \<in> set ts. optionalFree t)"
| "optionalFree (Object as opt) = (opt = {} \<and> (\<forall>(a, t) \<in> set as. optionalFree t))"
| "optionalFree _ = True"

fun withoutOptionalAttributesDeep :: "ctype \<Rightarrow> ctype" where
  "withoutOptionalAttributesDeep (List e) = List (withoutOptionalAttributesDeep e)"
| "withoutOptionalAttributesDeep (Set e) = Set (withoutOptionalAttributesDeep e)"
| "withoutOptionalAttributesDeep (Map e) = Map (withoutOptionalAttributesDeep e)"
| "withoutOptionalAttributesDeep (Tuple ts) = Tuple (map withoutOptionalAttributesDeep ts)"
| "withoutOptionalAttributesDeep (Object as opt) =
     Object (map (\<lambda>(a, t). (a, withoutOptionalAttributesDeep t)) as) {}"
| "withoutOptionalAttributesDeep t = t"

text \<open>
  What \<open>dynamicReplace\<close> relies on in its assumption that \<open>in\<close> and \<open>out\<close> are compatible
  from the perspective of \<open>Convert\<close>, which is decided outside the sources at hand: along
  the traversal, a source that is neither the placeholder nor absent meets a target of
  a variant that the branch taken recognizes for it. A Map target meets a Map or an
  Object, an Object target a Map or an Object, a Set or a List target a Set, a List or
  a Tuple, a Tuple target a Tuple of at least its arity, and no target is absent; a
  primitive, a capsule and a placeholder target ask nothing.
\<close>

function agrees :: "(ctype list \<Rightarrow> bool \<Rightarrow> ctype \<times> 'c) \<Rightarrow> ctype \<Rightarrow> ctype \<Rightarrow> bool" where
  "agrees U tin tout =
    (tin = DynamicPseudoType \<or> tin = NilType \<or>
     (case tout of
        DynamicPseudoType \<Rightarrow> True
      | Primitive p \<Rightarrow> True
      | Capsule c \<Rightarrow> True
      | Map oe \<Rightarrow>
          (case tin of
             Map ie \<Rightarrow> agrees U ie oe
           | Object ias iopt \<Rightarrow> agrees U (fst (U (map snd ias) True)) oe
           | _ \<Rightarrow> False)
      | Object oas oopt \<Rightarrow>
          (case tin of
             Map ie \<Rightarrow> (\<forall>(a, t) \<in> set oas. agrees U ie t)
           | Object ias iopt \<Rightarrow>
               (\<forall>(a, t) \<in> set oas. case map_of ias a of None \<Rightarrow> True | Some it \<Rightarrow> agrees U it t)
           | _ \<Rightarrow> False)
      | Set oe \<Rightarrow>
          (case tin of
             Set ie \<Rightarrow> agrees U ie oe
           | List ie \<Rightarrow> agrees U ie oe
           | Tuple ies \<Rightarrow> agrees U (fst (U ies True)) oe
           | _ \<Rightarrow> False)
      | List oe \<Rightarrow>
          (case tin of
             Set ie \<Rightarrow> agrees U ie oe
           | List ie \<Rightarrow> agrees U ie oe
           | Tuple ies \<Rightarrow> agrees U (fst (U ies True)) oe
           | _ \<Rightarrow> False)
      | Tuple oes \<Rightarrow>
          (case tin of
             Tuple ies \<Rightarrow>
               length oes \<le> length ies \<and> (\<forall>i \<in> {..<length oes}. agrees U (ies ! i) (oes ! i))
           | _ \<Rightarrow> False)
      | NilType \<Rightarrow> False))"
  by pat_completeness auto
termination
proof (relation "measure (\<lambda>(U, tin, tout). size tout)", goal_cases)
  case (10 U tin tout oes ies i)
  then have "oes ! i \<in> set oes" by simp
  then have "size (oes ! i) \<le> size_list size oes" by (rule size_list_estimation') simp
  with 10 show ?case by simp
next
  case (11 U tin tout oas oopt ie p a t)
  then have "size_prod (\<lambda>_. 0) size p \<le> size_list (size_prod (\<lambda>_. 0) size) oas"
    by (intro size_list_estimation'[of p]) auto
  with 11 show ?case by auto
next
  case (12 U tin tout oas oopt ias iopt p a t it)
  then have "size_prod (\<lambda>_. 0) size p \<le> size_list (size_prod (\<lambda>_. 0) size) oas"
    by (intro size_list_estimation'[of p]) auto
  with 12 show ?case by auto
qed simp_all

declare agrees.simps [simp del]

section \<open>Short circuits\<close>

lemma dynamicReplace_short:
  "tin = DynamicPseudoType \<or> tin = NilType \<Longrightarrow> dynamicReplace U tin tout = Inr tout"
  by (simp add: dynamicReplace.simps)


lemma dynamicReplace_concrete:
  "tin \<noteq> DynamicPseudoType \<Longrightarrow> tin \<noteq> NilType \<Longrightarrow>
   dynamicReplace U tin tout =
     (case tout of
        DynamicPseudoType \<Rightarrow> Inr tin
      | Primitive p \<Rightarrow> Inr tout
      | Capsule c \<Rightarrow> Inr tout
      | Map oe \<Rightarrow>
          (case tin of
             Map ie \<Rightarrow>
               (case dynamicReplace U ie oe of Inl f \<Rightarrow> Inl f | Inr elemType \<Rightarrow> Inr (Map elemType))
           | Object ias iopt \<Rightarrow>
               (case dynamicReplace U (fst (U (map snd ias) True)) oe of
                  Inl f \<Rightarrow> Inl f | Inr elemType \<Rightarrow> Inr (Map elemType))
           | _ \<Rightarrow> Inr (Map NilType))
      | Object oas oopt \<Rightarrow>
          (case tin of
             Map ie \<Rightarrow>
               (case replaceAttrsFromMap U ie oas of Inl f \<Rightarrow> Inl f | Inr outTypes \<Rightarrow> Inr (Object outTypes {}))
           | Object ias iopt \<Rightarrow>
               (case replaceAttrsFromObject U ias oas of
                  Inl f \<Rightarrow> Inl f | Inr outTypes \<Rightarrow> Inr (Object outTypes {}))
           | _ \<Rightarrow> Inr (Object [] {}))
      | Set oe \<Rightarrow>
          (case tin of
             Set ie \<Rightarrow>
               (case dynamicReplace U ie oe of Inl f \<Rightarrow> Inl f | Inr elemType \<Rightarrow> Inr (Set elemType))
           | List ie \<Rightarrow>
               (case dynamicReplace U ie oe of Inl f \<Rightarrow> Inl f | Inr elemType \<Rightarrow> Inr (Set elemType))
           | Tuple ies \<Rightarrow>
               (case dynamicReplace U (fst (U ies True)) oe of
                  Inl f \<Rightarrow> Inl f | Inr elemType \<Rightarrow> Inr (Set elemType))
           | _ \<Rightarrow> Inr (Set NilType))
      | List oe \<Rightarrow>
          (case tin of
             Set ie \<Rightarrow>
               (case dynamicReplace U ie oe of Inl f \<Rightarrow> Inl f | Inr elemType \<Rightarrow> Inr (List elemType))
           | List ie \<Rightarrow>
               (case dynamicReplace U ie oe of Inl f \<Rightarrow> Inl f | Inr elemType \<Rightarrow> Inr (List elemType))
           | Tuple ies \<Rightarrow>
               (case dynamicReplace U (fst (U ies True)) oe of
                  Inl f \<Rightarrow> Inl f | Inr elemType \<Rightarrow> Inr (List elemType))
           | _ \<Rightarrow> Inr (List NilType))
      | Tuple oes \<Rightarrow>
          (case replaceTupleElems U tin 0 oes of Inl f \<Rightarrow> Inl f | Inr types \<Rightarrow> Inr (Tuple types))
      | NilType \<Rightarrow> Inl Unrecognized_type)"
  by (simp add: dynamicReplace.simps)

lemma agrees_short:
  "tin = DynamicPseudoType \<or> tin = NilType \<Longrightarrow> agrees U tin tout"
  by (subst agrees.simps) blast

lemma agrees_concrete:
  "tin \<noteq> DynamicPseudoType \<Longrightarrow> tin \<noteq> NilType \<Longrightarrow>
   agrees U tin tout =
     (case tout of
        DynamicPseudoType \<Rightarrow> True
      | Primitive p \<Rightarrow> True
      | Capsule c \<Rightarrow> True
      | Map oe \<Rightarrow>
          (case tin of
             Map ie \<Rightarrow> agrees U ie oe
           | Object ias iopt \<Rightarrow> agrees U (fst (U (map snd ias) True)) oe
           | _ \<Rightarrow> False)
      | Object oas oopt \<Rightarrow>
          (case tin of
             Map ie \<Rightarrow> (\<forall>(a, t) \<in> set oas. agrees U ie t)
           | Object ias iopt \<Rightarrow>
               (\<forall>(a, t) \<in> set oas. case map_of ias a of None \<Rightarrow> True | Some it \<Rightarrow> agrees U it t)
           | _ \<Rightarrow> False)
      | Set oe \<Rightarrow>
          (case tin of
             Set ie \<Rightarrow> agrees U ie oe
           | List ie \<Rightarrow> agrees U ie oe
           | Tuple ies \<Rightarrow> agrees U (fst (U ies True)) oe
           | _ \<Rightarrow> False)
      | List oe \<Rightarrow>
          (case tin of
             Set ie \<Rightarrow> agrees U ie oe
           | List ie \<Rightarrow> agrees U ie oe
           | Tuple ies \<Rightarrow> agrees U (fst (U ies True)) oe
           | _ \<Rightarrow> False)
      | Tuple oes \<Rightarrow>
          (case tin of
             Tuple ies \<Rightarrow>
               length oes \<le> length ies \<and> (\<forall>i \<in> {..<length oes}. agrees U (ies ! i) (oes ! i))
           | _ \<Rightarrow> False)
      | NilType \<Rightarrow> False)"
  by (subst agrees.simps) simp

section \<open>The loops\<close>

text \<open>
  Each loop returns exactly when every iteration does, with the results in the order of
  the target, and a fault of a loop is the fault of one of its iterations.
\<close>

lemma replaceAttrsFromMap_returns:
  "replaceAttrsFromMap U ie oas = Inr ras \<longleftrightarrow>
     list_all2 (\<lambda>(a, t) (b, r). b = a \<and> dynamicReplace U ie t = Inr r) oas ras"
proof (induction oas arbitrary: ras)
  case Nil
  show ?case by auto
next
  case (Cons p oas)
  obtain a t where p: "p = (a, t)" by (cases p)
  have "replaceAttrsFromMap U ie (p # oas) = Inr ras \<longleftrightarrow>
      (\<exists>r rs. ras = (a, r) # rs \<and> dynamicReplace U ie t = Inr r \<and>
         replaceAttrsFromMap U ie oas = Inr rs)"
    by (auto simp add: p split: sum.splits)
  then show ?case
    by (auto simp add: p Cons.IH list_all2_Cons1)
qed


lemma replaceAttrsFromObject_returns:
  "replaceAttrsFromObject U ias oas = Inr ras \<longleftrightarrow>
     list_all2 (\<lambda>(a, t) (b, r). b = a \<and>
        (case map_of ias a of None \<Rightarrow> r = t | Some it \<Rightarrow> dynamicReplace U it t = Inr r)) oas ras"
proof (induction oas arbitrary: ras)
  case Nil
  show ?case by auto
next
  case (Cons p oas)
  obtain a t where p: "p = (a, t)" by (cases p)
  have "replaceAttrsFromObject U ias (p # oas) = Inr ras \<longleftrightarrow>
      (\<exists>r rs. ras = (a, r) # rs \<and>
         (case map_of ias a of None \<Rightarrow> r = t | Some it \<Rightarrow> dynamicReplace U it t = Inr r) \<and>
         replaceAttrsFromObject U ias oas = Inr rs)"
    by (auto simp add: p split: sum.splits option.splits)
  then show ?case
    by (auto simp add: p Cons.IH list_all2_Cons1)
qed


lemma replaceTupleElems_returns:
  "replaceTupleElems U tin ix oes = Inr res \<longleftrightarrow>
     length res = length oes \<and>
     (\<forall>j < length oes. \<exists>it. TupleElementType tin (ix + j) = Inr it \<and>
        dynamicReplace U it (oes ! j) = Inr (res ! j))"
proof (induction oes arbitrary: ix res)
  case Nil
  show ?case by auto
next
  case (Cons ot oes)
  show ?case
  proof (cases res)
    case Nil
    then show ?thesis by (auto split: sum.splits)
  next
    case (Cons r rs)
    have "replaceTupleElems U tin ix (ot # oes) = Inr (r # rs) \<longleftrightarrow>
        (\<exists>it. TupleElementType tin ix = Inr it \<and> dynamicReplace U it ot = Inr r) \<and>
        replaceTupleElems U tin (Suc ix) oes = Inr rs"
      by (auto split: sum.splits)
    also have "\<dots> \<longleftrightarrow>
        (\<exists>it. TupleElementType tin ix = Inr it \<and> dynamicReplace U it ot = Inr r) \<and>
        length rs = length oes \<and>
        (\<forall>j < length oes. \<exists>it. TupleElementType tin (Suc ix + j) = Inr it \<and>
           dynamicReplace U it (oes ! j) = Inr (rs ! j))"
      by (simp only: Cons.IH)
    also have "\<dots> \<longleftrightarrow>
        length (r # rs) = length (ot # oes) \<and>
        (\<forall>j < length (ot # oes). \<exists>it. TupleElementType tin (ix + j) = Inr it \<and>
           dynamicReplace U it ((ot # oes) ! j) = Inr ((r # rs) ! j))"
      by (auto simp add: less_Suc_eq_0_disj)
    finally show ?thesis using Cons by simp
  qed
qed


section \<open>Tuple against tuple\<close>

lemma tuple_against_tuple:
  assumes "length oes \<le> length ies"
  shows "dynamicReplace U (Tuple ies) (Tuple oes) = Inr r \<longleftrightarrow>
     (\<exists>ts. r = Tuple ts \<and> length ts = length oes \<and>
        (\<forall>i < length oes. dynamicReplace U (ies ! i) (oes ! i) = Inr (ts ! i)))"
proof -
  have "dynamicReplace U (Tuple ies) (Tuple oes) = Inr r \<longleftrightarrow>
      (\<exists>ts. r = Tuple ts \<and> replaceTupleElems U (Tuple ies) 0 oes = Inr ts)"
    by (auto simp add: dynamicReplace_concrete split: sum.splits)
  also have "\<dots> \<longleftrightarrow> (\<exists>ts. r = Tuple ts \<and> length ts = length oes \<and>
        (\<forall>i < length oes. dynamicReplace U (ies ! i) (oes ! i) = Inr (ts ! i)))"
    using assms by (simp add: replaceTupleElems_returns)
  finally show ?thesis .
qed

section \<open>Agreement excludes every fault\<close>




section \<open>Attribute lists related position by position\<close>

lemma map_of_replaced:
  "list_all2 (\<lambda>(a, t) (b, r). b = a \<and> P a t r) oas ras \<Longrightarrow>
   map_of oas a = Some t \<Longrightarrow> \<exists>r. map_of ras a = Some r \<and> P a t r"
proof (induction oas ras rule: list_all2_induct)
  case Nil
  then show ?case by simp
next
  case (Cons p oas q ras)
  then show ?case by (cases p; cases q) (auto split: if_splits)
qed

lemma list_all2_keys:
  "list_all2 (\<lambda>(a, t) (b, r). b = a \<and> P a t r) oas ras \<Longrightarrow> map fst ras = map fst oas"
  by (induction oas ras rule: list_all2_induct) auto

lemma list_all2_total:
  "(\<forall>x \<in> set xs. \<exists>y. P x y) \<Longrightarrow> \<exists>ys. list_all2 P xs ys"
proof (induction xs)
  case Nil
  then show ?case by simp
next
  case (Cons x xs)
  then obtain y ys where "P x y" "list_all2 P xs ys" by auto
  then have "list_all2 P (x # xs) (y # ys)" by simp
  then show ?case by blast
qed

lemma list_all2_same_pairs:
  "(\<forall>(a, t) \<in> set xs. P a t t) \<Longrightarrow> list_all2 (\<lambda>(a, t) (b, r). b = a \<and> P a t r) xs xs"
  by (induction xs) auto

section \<open>The fault of the default branch\<close>

lemma handledThroughout_handledVariant: "handledThroughout t \<Longrightarrow> handledVariant t"
  by (cases t) (simp_all add: handledVariant_def)




section \<open>The variant of the result\<close>



section \<open>Placeholder-free targets\<close>

text \<open>
  On a target without placeholders whose shape agrees with the source, the call returns
  the target up to the optional-attribute markers, and the target itself when it has
  no marker.
\<close>

lemma erased_attributes:
  "list_all2 (\<lambda>(a, t) (b, r). b = a \<and> withoutOptionalAttributesDeep r = withoutOptionalAttributesDeep t)
     oas ras \<Longrightarrow>
   map (\<lambda>(a, t). (a, withoutOptionalAttributesDeep t)) ras
     = map (\<lambda>(a, t). (a, withoutOptionalAttributesDeep t)) oas"
  by (induction oas ras rule: list_all2_induct) auto

lemma dynamicReplace_up_to_optional:
  "placeholderFree tout \<Longrightarrow> agrees U tin tout \<Longrightarrow>
   \<exists>r. dynamicReplace U tin tout = Inr r \<and>
     withoutOptionalAttributesDeep r = withoutOptionalAttributesDeep tout"
proof (induction tout arbitrary: tin)
  case NilType
  then show ?case
    by (cases "tin = DynamicPseudoType \<or> tin = NilType") (auto simp add: agrees_concrete dynamicReplace_short)
next
  case DynamicPseudoType
  then show ?case by simp
next
  case (Primitive p)
  then show ?case by (simp add: dynamicReplace.simps)
next
  case (Capsule c)
  then show ?case by (simp add: dynamicReplace.simps)
next
  case (List oe)
  show ?case
  proof (cases "tin = DynamicPseudoType \<or> tin = NilType")
    case True
    then show ?thesis by (simp add: dynamicReplace_short)
  next
    case False
    with List.prems List.IH show ?thesis
      by (cases tin) (fastforce simp add: agrees_concrete dynamicReplace_concrete)+
  qed
next
  case (Set oe)
  show ?case
  proof (cases "tin = DynamicPseudoType \<or> tin = NilType")
    case True
    then show ?thesis by (simp add: dynamicReplace_short)
  next
    case False
    with Set.prems Set.IH show ?thesis
      by (cases tin) (fastforce simp add: agrees_concrete dynamicReplace_concrete)+
  qed
next
  case (Map oe)
  show ?case
  proof (cases "tin = DynamicPseudoType \<or> tin = NilType")
    case True
    then show ?thesis by (simp add: dynamicReplace_short)
  next
    case False
    with Map.prems Map.IH show ?thesis
      by (cases tin) (fastforce simp add: agrees_concrete dynamicReplace_concrete)+
  qed
next
  case (Tuple oes)
  show ?case
  proof (cases "tin = DynamicPseudoType \<or> tin = NilType")
    case True
    then show ?thesis by (simp add: dynamicReplace_short)
  next
    case False
    with Tuple.prems obtain ies where tin: "tin = Tuple ies" and len: "length oes \<le> length ies"
      and ag: "\<forall>i < length oes. agrees U (ies ! i) (oes ! i)"
      by (cases tin) (auto simp add: agrees_concrete)
    have "\<forall>i < length oes. \<exists>r. dynamicReplace U (ies ! i) (oes ! i) = Inr r \<and>
        withoutOptionalAttributesDeep r = withoutOptionalAttributesDeep (oes ! i)"
    proof (intro allI impI)
      fix i assume i: "i < length oes"
      with Tuple.prems have "placeholderFree (oes ! i)" by simp
      moreover from i ag have "agrees U (ies ! i) (oes ! i)" by simp
      ultimately show "\<exists>r. dynamicReplace U (ies ! i) (oes ! i) = Inr r \<and>
          withoutOptionalAttributesDeep r = withoutOptionalAttributesDeep (oes ! i)"
        using Tuple.IH[of "oes ! i" "ies ! i"] i by simp
    qed
    then obtain ts where ts: "length ts = length oes"
      "\<forall>i < length oes. dynamicReplace U (ies ! i) (oes ! i) = Inr (ts ! i) \<and>
         withoutOptionalAttributesDeep (ts ! i) = withoutOptionalAttributesDeep (oes ! i)"
      unfolding Skolem_list_nth by blast
    with len have "dynamicReplace U (Tuple ies) (Tuple oes) = Inr (Tuple ts)"
      by (simp add: tuple_against_tuple)
    moreover from ts have "map withoutOptionalAttributesDeep ts = map withoutOptionalAttributesDeep oes"
      by (simp add: list_eq_iff_nth_eq)
    ultimately show ?thesis unfolding tin by simp
  qed
next
  case (Object oas oopt)
  show ?case
  proof (cases "tin = DynamicPseudoType \<or> tin = NilType")
    case True
    then show ?thesis by (simp add: dynamicReplace_short)
  next
    case False
    with Object.prems consider
      (map) ie where "tin = Map ie" "\<forall>(a, t) \<in> set oas. agrees U ie t"
      | (obj) ias iopt where "tin = Object ias iopt"
        "\<forall>(a, t) \<in> set oas. case map_of ias a of None \<Rightarrow> True | Some it \<Rightarrow> agrees U it t"
      by (cases tin) (auto simp add: agrees_concrete)
    then show ?thesis
    proof cases
      case map
      have "\<forall>x \<in> set oas. \<exists>y. (\<lambda>(a, t) (b, r). b = a \<and> dynamicReplace U ie t = Inr r \<and>
          withoutOptionalAttributesDeep r = withoutOptionalAttributesDeep t) x y"
      proof
        fix x assume x: "x \<in> set oas"
        obtain a t where at: "x = (a, t)" by (cases x)
        from x at Object.prems have "placeholderFree t" by auto
        moreover from x at map have "agrees U ie t" by auto
        ultimately obtain r where "dynamicReplace U ie t = Inr r"
          "withoutOptionalAttributesDeep r = withoutOptionalAttributesDeep t"
          using Object.IH[of "(a, t)" t ie] x at by auto
        then show "\<exists>y. (\<lambda>(a, t) (b, r). b = a \<and> dynamicReplace U ie t = Inr r \<and>
          withoutOptionalAttributesDeep r = withoutOptionalAttributesDeep t) x y"
          by (auto simp add: at)
      qed
      from list_all2_total[OF this] obtain ras where
        l: "list_all2 (\<lambda>(a, t) (b, r). b = a \<and> dynamicReplace U ie t = Inr r \<and>
          withoutOptionalAttributesDeep r = withoutOptionalAttributesDeep t) oas ras"
        by blast
      then have "list_all2 (\<lambda>(a, t) (b, r). b = a \<and> dynamicReplace U ie t = Inr r) oas ras"
        by (rule list_all2_mono) auto
      then have "replaceAttrsFromMap U ie oas = Inr ras"
        by (simp only: replaceAttrsFromMap_returns)
      with map have "dynamicReplace U tin (Object oas oopt) = Inr (Object ras {})"
        by (simp add: dynamicReplace_concrete)
      moreover from l have "list_all2 (\<lambda>(a, t) (b, r). b = a \<and>
          withoutOptionalAttributesDeep r = withoutOptionalAttributesDeep t) oas ras"
        by (rule list_all2_mono) auto
      then have "map (\<lambda>(a, t). (a, withoutOptionalAttributesDeep t)) ras
          = map (\<lambda>(a, t). (a, withoutOptionalAttributesDeep t)) oas"
        by (rule erased_attributes)
      ultimately show ?thesis by simp
    next
      case obj
      have "\<forall>x \<in> set oas. \<exists>y. (\<lambda>(a, t) (b, r). b = a \<and>
          (case map_of ias a of None \<Rightarrow> r = t | Some it \<Rightarrow> dynamicReplace U it t = Inr r) \<and>
          withoutOptionalAttributesDeep r = withoutOptionalAttributesDeep t) x y"
      proof
        fix x assume x: "x \<in> set oas"
        obtain a t where at: "x = (a, t)" by (cases x)
        from x at Object.prems have pf: "placeholderFree t" by auto
        show "\<exists>y. (\<lambda>(a, t) (b, r). b = a \<and>
          (case map_of ias a of None \<Rightarrow> r = t | Some it \<Rightarrow> dynamicReplace U it t = Inr r) \<and>
          withoutOptionalAttributesDeep r = withoutOptionalAttributesDeep t) x y"
        proof (cases "map_of ias a")
          case None
          then show ?thesis by (auto simp add: at)
        next
          case (Some it)
          with x at obj have "agrees U it t" by fastforce
          with pf obtain r where "dynamicReplace U it t = Inr r"
            "withoutOptionalAttributesDeep r = withoutOptionalAttributesDeep t"
            using Object.IH[of "(a, t)" t it] x at by auto
          with Some show ?thesis by (auto simp add: at)
        qed
      qed
      from list_all2_total[OF this] obtain ras where
        l: "list_all2 (\<lambda>(a, t) (b, r). b = a \<and>
          (case map_of ias a of None \<Rightarrow> r = t | Some it \<Rightarrow> dynamicReplace U it t = Inr r) \<and>
          withoutOptionalAttributesDeep r = withoutOptionalAttributesDeep t) oas ras"
        by blast
      then have "list_all2 (\<lambda>(a, t) (b, r). b = a \<and>
          (case map_of ias a of None \<Rightarrow> r = t | Some it \<Rightarrow> dynamicReplace U it t = Inr r)) oas ras"
        by (rule list_all2_mono) auto
      then have "replaceAttrsFromObject U ias oas = Inr ras"
        by (simp only: replaceAttrsFromObject_returns)
      with obj have "dynamicReplace U tin (Object oas oopt) = Inr (Object ras {})"
        by (simp add: dynamicReplace_concrete)
      moreover from l have "list_all2 (\<lambda>(a, t) (b, r). b = a \<and>
          withoutOptionalAttributesDeep r = withoutOptionalAttributesDeep t) oas ras"
        by (rule list_all2_mono) auto
      then have "map (\<lambda>(a, t). (a, withoutOptionalAttributesDeep t)) ras
          = map (\<lambda>(a, t). (a, withoutOptionalAttributesDeep t)) oas"
        by (rule erased_attributes)
      ultimately show ?thesis by simp
    qed
  qed
qed

lemma dynamicReplace_optional_free_identity:
  "placeholderFree tout \<Longrightarrow> optionalFree tout \<Longrightarrow> agrees U tin tout \<Longrightarrow>
   dynamicReplace U tin tout = Inr tout"
proof (induction tout arbitrary: tin)
  case NilType
  then show ?case
    by (cases "tin = DynamicPseudoType \<or> tin = NilType") (auto simp add: agrees_concrete dynamicReplace_short)
next
  case DynamicPseudoType
  then show ?case by simp
next
  case (Primitive p)
  then show ?case by (simp add: dynamicReplace.simps)
next
  case (Capsule c)
  then show ?case by (simp add: dynamicReplace.simps)
next
  case (List oe)
  show ?case
  proof (cases "tin = DynamicPseudoType \<or> tin = NilType")
    case True
    then show ?thesis by (simp add: dynamicReplace_short)
  next
    case False
    with List.prems List.IH show ?thesis
      by (cases tin) (simp_all add: agrees_concrete dynamicReplace_concrete)
  qed
next
  case (Set oe)
  show ?case
  proof (cases "tin = DynamicPseudoType \<or> tin = NilType")
    case True
    then show ?thesis by (simp add: dynamicReplace_short)
  next
    case False
    with Set.prems Set.IH show ?thesis
      by (cases tin) (simp_all add: agrees_concrete dynamicReplace_concrete)
  qed
next
  case (Map oe)
  show ?case
  proof (cases "tin = DynamicPseudoType \<or> tin = NilType")
    case True
    then show ?thesis by (simp add: dynamicReplace_short)
  next
    case False
    with Map.prems Map.IH show ?thesis
      by (cases tin) (simp_all add: agrees_concrete dynamicReplace_concrete)
  qed
next
  case (Tuple oes)
  show ?case
  proof (cases "tin = DynamicPseudoType \<or> tin = NilType")
    case True
    then show ?thesis by (simp add: dynamicReplace_short)
  next
    case False
    with Tuple.prems obtain ies where tin: "tin = Tuple ies" and len: "length oes \<le> length ies"
      and ag: "\<forall>i < length oes. agrees U (ies ! i) (oes ! i)"
      by (cases tin) (auto simp add: agrees_concrete)
    have "\<forall>i < length oes. dynamicReplace U (ies ! i) (oes ! i) = Inr (oes ! i)"
    proof (intro allI impI)
      fix i assume i: "i < length oes"
      with Tuple.prems have "placeholderFree (oes ! i)" "optionalFree (oes ! i)" by simp_all
      moreover from i ag have "agrees U (ies ! i) (oes ! i)" by simp
      ultimately show "dynamicReplace U (ies ! i) (oes ! i) = Inr (oes ! i)"
        using Tuple.IH[of "oes ! i" "ies ! i"] i by simp
    qed
    with len show ?thesis
      unfolding tin by (simp add: tuple_against_tuple)
  qed
next
  case (Object oas oopt)
  show ?case
  proof (cases "tin = DynamicPseudoType \<or> tin = NilType")
    case True
    then show ?thesis by (simp add: dynamicReplace_short)
  next
    case False
    with Object.prems consider
      (map) ie where "tin = Map ie" "\<forall>(a, t) \<in> set oas. agrees U ie t"
      | (obj) ias iopt where "tin = Object ias iopt"
        "\<forall>(a, t) \<in> set oas. case map_of ias a of None \<Rightarrow> True | Some it \<Rightarrow> agrees U it t"
      by (cases tin) (auto simp add: agrees_concrete)
    then show ?thesis
    proof cases
      case map
      have "\<forall>(a, t) \<in> set oas. dynamicReplace U ie t = Inr t"
      proof (intro ballI, clarify)
        fix a t assume at: "(a, t) \<in> set oas"
        with Object.prems have "placeholderFree t" "optionalFree t" by auto
        moreover from at map have "agrees U ie t" by auto
        ultimately show "dynamicReplace U ie t = Inr t"
          using Object.IH[of "(a, t)" t ie] at by simp
      qed
      then have "list_all2 (\<lambda>(a, t) (b, r). b = a \<and> dynamicReplace U ie t = Inr r) oas oas"
        by (rule list_all2_same_pairs)
      then have "replaceAttrsFromMap U ie oas = Inr oas"
        by (simp only: replaceAttrsFromMap_returns)
      with map Object.prems show ?thesis by (simp add: dynamicReplace_concrete)
    next
      case obj
      have "\<forall>(a, t) \<in> set oas.
          (case map_of ias a of None \<Rightarrow> t = t | Some it \<Rightarrow> dynamicReplace U it t = Inr t)"
      proof (intro ballI, clarify)
        fix a t assume at: "(a, t) \<in> set oas"
        with Object.prems have pf: "placeholderFree t" "optionalFree t" by auto
        show "case map_of ias a of None \<Rightarrow> t = t | Some it \<Rightarrow> dynamicReplace U it t = Inr t"
        proof (cases "map_of ias a")
          case None
          then show ?thesis by simp
        next
          case (Some it)
          with at obj have "agrees U it t" by fastforce
          with pf Some show ?thesis
            using Object.IH[of "(a, t)" t it] at by simp
        qed
      qed
      then have "list_all2 (\<lambda>(a, t) (b, r). b = a \<and>
          (case map_of ias a of None \<Rightarrow> r = t | Some it \<Rightarrow> dynamicReplace U it t = Inr r)) oas oas"
        by (rule list_all2_same_pairs)
      then have "replaceAttrsFromObject U ias oas = Inr oas"
        by (simp only: replaceAttrsFromObject_returns)
      with obj Object.prems show ?thesis by (simp add: dynamicReplace_concrete)
    qed
  qed
qed

section \<open>The claims\<close>

text \<open>
  C1. The conversion that \<open>dynamicFixup\<close> returns for a target type \<open>T\<close>, applied to
  a value \<open>v\<close> with the caller's path \<open>p\<close>: when \<open>Convert v T\<close> succeeds (its error is
  nil) the result is that of \<open>Convert\<close>, unchanged; when it fails with an error, the
  result is the nil value together with that error rewrapped by \<open>NewError\<close> under the
  caller's path \<open>p\<close>.
\<close>

theorem dynamicFixup_rewraps:
  "(snd (Convert v T) = None \<longrightarrow> dynamicFixup Convert NewError NilVal T v p = Convert v T) \<and>
   (\<forall>err. snd (Convert v T) = Some err \<longrightarrow>
      dynamicFixup Convert NewError NilVal T v p = (NilVal, Some (NewError p err)))"
  by (cases "Convert v T") (auto simp add: dynamicFixup_def)

theorem dynamicFixup_rewraps_witness:
  "snd ((\<lambda>v T. if v = (0::nat) then (v, Some ''e'') else (Suc v, None)) 0 (Primitive Number)) = Some ''e'' \<and>
   dynamicFixup (\<lambda>v T. if v = (0::nat) then (v, Some ''e'') else (Suc v, None)) (\<lambda>p e. p @ e) 7
     (Primitive Number) 0 ''p'' = (7, Some ''pe'') \<and>
   snd ((\<lambda>v T. if v = (0::nat) then (v, Some ''e'') else (Suc v, None)) 1 (Primitive Number)) = None \<and>
   dynamicFixup (\<lambda>v T. if v = (0::nat) then (v, Some ''e'') else (Suc v, None)) (\<lambda>p e. p @ e) 7
     (Primitive Number) 1 ''p'' = (2, None)"
  using dynamicFixup_rewraps [of "\<lambda>v T. if v = (0::nat) then (v, Some ''e'') else (Suc v, None)"
      0 "Primitive Number" "\<lambda>p e. p @ e" 7 "''p''"]
    dynamicFixup_rewraps [of "\<lambda>v T. if v = (0::nat) then (v, Some ''e'') else (Suc v, None)"
      1 "Primitive Number" "\<lambda>p e. p @ e" 7 "''p''"]
  by simp

text \<open>
  C2, as amended. For every pair of types \<open>in\<close>, \<open>out\<close> that are compatible from the
  perspective of \<open>Convert\<close>, if \<open>out\<close> holds no placeholder at any depth,
  \<open>dynamicReplace in out\<close> returns a type that differs from \<open>out\<close> at most in the
  optional-attribute markers, which an Object that the traversal rebuilds loses; it
  returns \<open>out\<close> unchanged when no Object in \<open>out\<close>, at any depth, marks an attribute
  optional. Of the compatibility the theorem assumes \<open>agrees\<close> only, the part of it on
  which the traversal relies.
\<close>

theorem dynamicReplace_placeholder_free_target:
  "placeholderFree tout \<Longrightarrow> agrees U tin tout \<Longrightarrow>
   (\<exists>r. dynamicReplace U tin tout = Inr r \<and>
      withoutOptionalAttributesDeep r = withoutOptionalAttributesDeep tout) \<and>
   (optionalFree tout \<longrightarrow> dynamicReplace U tin tout = Inr tout)"
  by (simp add: dynamicReplace_up_to_optional dynamicReplace_optional_free_identity)

theorem dynamicReplace_placeholder_free_target_witness:
  "placeholderFree (Map (Tuple [Primitive Number, List (Primitive Text)])) \<and>
   optionalFree (Map (Tuple [Primitive Number, List (Primitive Text)])) \<and>
   agrees unifyExact
     (Object [(''a'', Tuple [Primitive Text, Set (Primitive Text)]),
              (''b'', Tuple [Primitive Text, Set (Primitive Text)])] {})
     (Map (Tuple [Primitive Number, List (Primitive Text)])) \<and>
   dynamicReplace unifyExact
     (Object [(''a'', Tuple [Primitive Text, Set (Primitive Text)]),
              (''b'', Tuple [Primitive Text, Set (Primitive Text)])] {})
     (Map (Tuple [Primitive Number, List (Primitive Text)]))
     = Inr (Map (Tuple [Primitive Number, List (Primitive Text)])) \<and>
   placeholderFree (Object [(''a'', Primitive Text), (''b'', List (Primitive Number))] {''b''}) \<and>
   agrees unifyExact (Object [(''a'', Primitive Number)] {})
     (Object [(''a'', Primitive Text), (''b'', List (Primitive Number))] {''b''}) \<and>
   (\<exists>r. dynamicReplace unifyExact (Object [(''a'', Primitive Number)] {})
       (Object [(''a'', Primitive Text), (''b'', List (Primitive Number))] {''b''}) = Inr r \<and>
      withoutOptionalAttributesDeep r
        = Object [(''a'', Primitive Text), (''b'', List (Primitive Number))] {})"
proof -
  have pf: "placeholderFree (Map (Tuple [Primitive Number, List (Primitive Text)]))"
    by simp
  have opf: "optionalFree (Map (Tuple [Primitive Number, List (Primitive Text)]))"
    by simp
  have ag: "agrees unifyExact
     (Object [(''a'', Tuple [Primitive Text, Set (Primitive Text)]),
              (''b'', Tuple [Primitive Text, Set (Primitive Text)])] {})
     (Map (Tuple [Primitive Number, List (Primitive Text)]))"
    by (simp add: agrees.simps lessThan_Suc numeral_2_eq_2)
  have pf': "placeholderFree (Object [(''a'', Primitive Text), (''b'', List (Primitive Number))] {''b''})"
    by simp
  have ag': "agrees unifyExact (Object [(''a'', Primitive Number)] {})
     (Object [(''a'', Primitive Text), (''b'', List (Primitive Number))] {''b''})"
    by (simp add: agrees.simps)
  note same = dynamicReplace_placeholder_free_target [OF pf ag, THEN conjunct2, rule_format, OF opf]
  from dynamicReplace_placeholder_free_target [OF pf' ag', THEN conjunct1]
  have upto: "\<exists>r. dynamicReplace unifyExact (Object [(''a'', Primitive Number)] {})
       (Object [(''a'', Primitive Text), (''b'', List (Primitive Number))] {''b''}) = Inr r \<and>
      withoutOptionalAttributesDeep r
        = Object [(''a'', Primitive Text), (''b'', List (Primitive Number))] {}"
    by simp
  from pf opf ag same pf' ag' upto show ?thesis by blast
qed

text \<open>
  C2 as it is stated fails on a target with an optional attribute: the source
  \<open>Object{a: Text}\<close> and the target \<open>Object{a: Text}\<close> with \<open>a\<close> optional have no
  placeholder and agree, and the call returns the Object that it has built with
  \<open>cty.Object\<close>, in which \<open>a\<close> is no longer optional.
\<close>

theorem dynamicReplace_placeholder_free_target_counterexample:
  "placeholderFree (Object [(''a'', Primitive Text)] {''a''}) \<and>
   agrees unifyExact (Object [(''a'', Primitive Text)] {}) (Object [(''a'', Primitive Text)] {''a''}) \<and>
   dynamicReplace unifyExact (Object [(''a'', Primitive Text)] {}) (Object [(''a'', Primitive Text)] {''a''})
     = Inr (Object [(''a'', Primitive Text)] {}) \<and>
   Object [(''a'', Primitive Text)] {} \<noteq> Object [(''a'', Primitive Text)] {''a''}"
  by (simp add: agrees.simps dynamicReplace.simps)

text \<open>
  C3. For every concrete type \<open>C\<close>, neither the placeholder nor the absent type,
  \<open>dynamicReplace C DynamicPseudoType\<close> returns \<open>C\<close> exactly.
\<close>

theorem dynamicReplace_placeholder_target:
  "C \<noteq> DynamicPseudoType \<Longrightarrow> C \<noteq> NilType \<Longrightarrow> dynamicReplace U C DynamicPseudoType = Inr C"
  by (simp add: dynamicReplace.simps)

theorem dynamicReplace_placeholder_target_witness:
  "Object [(''a'', Primitive Number)] {} \<noteq> DynamicPseudoType \<and>
   Object [(''a'', Primitive Number)] {} \<noteq> NilType \<and>
   dynamicReplace unifyExact (Object [(''a'', Primitive Number)] {}) DynamicPseudoType
     = Inr (Object [(''a'', Primitive Number)] {})"
  using dynamicReplace_placeholder_target [of "Object [(''a'', Primitive Number)] {}" unifyExact]
  by simp

text \<open>
  C4. Whenever \<open>in\<close> is the placeholder type or the absent type, \<open>dynamicReplace in out\<close>
  returns \<open>out\<close> exactly, for every type \<open>out\<close>.
\<close>

theorem dynamicReplace_placeholder_source:
  "tin = DynamicPseudoType \<or> tin = NilType \<Longrightarrow> dynamicReplace U tin tout = Inr tout"
  by (simp add: dynamicReplace.simps)

theorem dynamicReplace_placeholder_source_witness:
  "(NilType = DynamicPseudoType \<or> NilType = NilType) \<and>
   dynamicReplace unifyExact NilType (Map DynamicPseudoType) = Inr (Map DynamicPseudoType) \<and>
   dynamicReplace unifyExact DynamicPseudoType (Tuple [Primitive Text]) = Inr (Tuple [Primitive Text])"
  using dynamicReplace_placeholder_source [of NilType unifyExact "Map DynamicPseudoType"]
    dynamicReplace_placeholder_source [of DynamicPseudoType unifyExact "Tuple [Primitive Text]"]
  by simp

text \<open>
  C5. For a Map target and an Object source, \<open>dynamicReplace\<close> returns the Map whose
  element type is \<open>dynamicReplace\<close> of the unsafe unification of the attribute types
  of the source, in the order of the range over them, and of the element type of the
  target; a fault of that nested call is the fault of the call. In particular, with a
  \<open>unify\<close> that returns \<open>Number\<close> on \<open>[Number]\<close>, the source \<open>Object{a: Number}\<close> and
  the target \<open>Map(DynamicPseudoType)\<close> give \<open>Map(Number)\<close>.
\<close>

theorem dynamicReplace_object_to_map:
  "dynamicReplace U (Object ias iopt) (Map oe) =
     (case dynamicReplace U (fst (U (map snd ias) True)) oe of
        Inl f \<Rightarrow> Inl f | Inr elemType \<Rightarrow> Inr (Map elemType)) \<and>
   (fst (U [Primitive Number] True) = Primitive Number \<longrightarrow>
      dynamicReplace U (Object [(''a'', Primitive Number)] {}) (Map DynamicPseudoType)
        = Inr (Map (Primitive Number)))"
  by (simp add: dynamicReplace_concrete)

theorem dynamicReplace_object_to_map_witness:
  "fst (unifyExact [Primitive Number] True) = Primitive Number \<and>
   dynamicReplace unifyExact (Object [(''a'', Primitive Number)] {}) (Map DynamicPseudoType)
     = Inr (Map (Primitive Number))"
  using dynamicReplace_object_to_map [of unifyExact "[(''a'', Primitive Number)]" "{}" DynamicPseudoType,
      THEN conjunct2]
  by simp

text \<open>
  C6. For an Object target and an Object source: when the call returns, it returns an
  Object, built by \<open>cty.Object\<close>, in which an attribute \<open>a\<close> of the target that the
  source lacks has the type that the target declares for it, unchanged, and an
  attribute \<open>a\<close> that both have has the type that \<open>dynamicReplace\<close> returns on the type
  of \<open>a\<close> in the source and the type of \<open>a\<close> in the target. The call returns, an Object
  with the attribute names of the target, as soon as the nested call returns for every
  attribute that both have.
\<close>

theorem dynamicReplace_object_to_object:
  "(dynamicReplace U (Object ias iopt) (Object oas oopt) = Inr r \<longrightarrow> map_of oas a = Some t \<longrightarrow>
      (\<exists>ras. r = Object ras {} \<and>
         (case map_of ias a of
            None \<Rightarrow> map_of ras a = Some t
          | Some it \<Rightarrow> \<exists>t'. dynamicReplace U it t = Inr t' \<and> map_of ras a = Some t'))) \<and>
   ((\<forall>(b, u) \<in> set oas. \<forall>it. map_of ias b = Some it \<longrightarrow> (\<exists>u'. dynamicReplace U it u = Inr u')) \<longrightarrow>
      (\<exists>ras. dynamicReplace U (Object ias iopt) (Object oas oopt) = Inr (Object ras {}) \<and>
         map fst ras = map fst oas))"
proof (intro conjI impI)
  assume ret: "dynamicReplace U (Object ias iopt) (Object oas oopt) = Inr r" and a: "map_of oas a = Some t"
  from ret obtain ras where r: "r = Object ras {}" and loop: "replaceAttrsFromObject U ias oas = Inr ras"
    by (auto simp add: dynamicReplace_concrete split: sum.splits)
  from loop have "list_all2 (\<lambda>(a, t) (b, r). b = a \<and>
        (case map_of ias a of None \<Rightarrow> r = t | Some it \<Rightarrow> dynamicReplace U it t = Inr r)) oas ras"
    by (simp only: replaceAttrsFromObject_returns)
  from map_of_replaced[OF this a] obtain t' where
    "map_of ras a = Some t'"
    "case map_of ias a of None \<Rightarrow> t' = t | Some it \<Rightarrow> dynamicReplace U it t = Inr t'"
    by blast
  then have "case map_of ias a of
            None \<Rightarrow> map_of ras a = Some t
          | Some it \<Rightarrow> \<exists>t'. dynamicReplace U it t = Inr t' \<and> map_of ras a = Some t'"
    by (auto split: option.splits)
  with r show "\<exists>ras. r = Object ras {} \<and>
         (case map_of ias a of
            None \<Rightarrow> map_of ras a = Some t
          | Some it \<Rightarrow> \<exists>t'. dynamicReplace U it t = Inr t' \<and> map_of ras a = Some t')"
    by blast
next
  assume all: "\<forall>(b, u) \<in> set oas. \<forall>it. map_of ias b = Some it \<longrightarrow> (\<exists>u'. dynamicReplace U it u = Inr u')"
  have "\<forall>x \<in> set oas. \<exists>y. (\<lambda>(a, t) (b, r). b = a \<and>
        (case map_of ias a of None \<Rightarrow> r = t | Some it \<Rightarrow> dynamicReplace U it t = Inr r)) x y"
  proof
    fix x assume x: "x \<in> set oas"
    obtain b u where bu: "x = (b, u)" by (cases x)
    show "\<exists>y. (\<lambda>(a, t) (b, r). b = a \<and>
        (case map_of ias a of None \<Rightarrow> r = t | Some it \<Rightarrow> dynamicReplace U it t = Inr r)) x y"
    proof (cases "map_of ias b")
      case None
      then show ?thesis by (simp add: bu)
    next
      case (Some it)
      with all x bu obtain u' where "dynamicReplace U it u = Inr u'" by blast
      with Some show ?thesis by (auto simp add: bu)
    qed
  qed
  from list_all2_total[OF this] obtain ras where
    l: "list_all2 (\<lambda>(a, t) (b, r). b = a \<and>
        (case map_of ias a of None \<Rightarrow> r = t | Some it \<Rightarrow> dynamicReplace U it t = Inr r)) oas ras"
    by blast
  then have "replaceAttrsFromObject U ias oas = Inr ras"
    by (simp only: replaceAttrsFromObject_returns)
  then have "dynamicReplace U (Object ias iopt) (Object oas oopt) = Inr (Object ras {})"
    by (simp add: dynamicReplace_concrete)
  moreover from l have "map fst ras = map fst oas" by (rule list_all2_keys)
  ultimately show "\<exists>ras. dynamicReplace U (Object ias iopt) (Object oas oopt) = Inr (Object ras {}) \<and>
         map fst ras = map fst oas"
    by blast
qed

theorem dynamicReplace_object_to_object_witness:
  "dynamicReplace unifyExact (Object [(''a'', Primitive Number), (''c'', List (Primitive Text))] {})
     (Object [(''a'', DynamicPseudoType), (''b'', DynamicPseudoType), (''c'', List DynamicPseudoType)] {})
     = Inr (Object [(''a'', Primitive Number), (''b'', DynamicPseudoType), (''c'', List (Primitive Text))] {}) \<and>
   map_of [(''a'', DynamicPseudoType), (''b'', DynamicPseudoType), (''c'', List DynamicPseudoType)] ''b''
     = Some DynamicPseudoType \<and>
   map_of [(''a'', Primitive Number), (''c'', List (Primitive Text))] ''b'' = None \<and>
   (\<exists>ras. Object [(''a'', Primitive Number), (''b'', DynamicPseudoType), (''c'', List (Primitive Text))] {}
       = Object ras {} \<and> map_of ras ''b'' = Some DynamicPseudoType) \<and>
   map_of [(''a'', DynamicPseudoType), (''b'', DynamicPseudoType), (''c'', List DynamicPseudoType)] ''c''
     = Some (List DynamicPseudoType) \<and>
   map_of [(''a'', Primitive Number), (''c'', List (Primitive Text))] ''c'' = Some (List (Primitive Text)) \<and>
   (\<exists>ras. Object [(''a'', Primitive Number), (''b'', DynamicPseudoType), (''c'', List (Primitive Text))] {}
       = Object ras {} \<and>
      (\<exists>t'. dynamicReplace unifyExact (List (Primitive Text)) (List DynamicPseudoType) = Inr t' \<and>
         map_of ras ''c'' = Some t')) \<and>
   (\<exists>ras. dynamicReplace unifyExact (Object [(''a'', Primitive Number), (''c'', List (Primitive Text))] {})
       (Object [(''a'', DynamicPseudoType), (''b'', DynamicPseudoType), (''c'', List DynamicPseudoType)] {})
       = Inr (Object ras {}) \<and>
      map fst ras = [''a'', ''b'', ''c''])"
proof -
  let ?ias = "[(''a'', Primitive Number), (''c'', List (Primitive Text))]"
  let ?oas = "[(''a'', DynamicPseudoType), (''b'', DynamicPseudoType), (''c'', List DynamicPseudoType)]"
  let ?r = "Object [(''a'', Primitive Number), (''b'', DynamicPseudoType), (''c'', List (Primitive Text))] {}"
  have ret: "dynamicReplace unifyExact (Object ?ias {}) (Object ?oas {}) = Inr ?r"
    by (simp add: dynamicReplace.simps)
  have b: "map_of ?oas ''b'' = Some DynamicPseudoType"
    by simp
  have nb: "map_of ?ias ''b'' = None"
    by simp
  have c: "map_of ?oas ''c'' = Some (List DynamicPseudoType)"
    by simp
  have ic: "map_of ?ias ''c'' = Some (List (Primitive Text))"
    by simp
  have nested: "\<forall>(b, u) \<in> set ?oas. \<forall>it. map_of ?ias b = Some it \<longrightarrow>
      (\<exists>u'. dynamicReplace unifyExact it u = Inr u')"
    by (simp add: dynamicReplace.simps)
  from dynamicReplace_object_to_object [of unifyExact ?ias "{}" ?oas "{}" ?r "''b''" DynamicPseudoType,
      THEN conjunct1, rule_format, OF ret b]
  have kept: "\<exists>ras. ?r = Object ras {} \<and> map_of ras ''b'' = Some DynamicPseudoType"
    by (simp only: nb option.case)
  from dynamicReplace_object_to_object [of unifyExact ?ias "{}" ?oas "{}" ?r "''c''" "List DynamicPseudoType",
      THEN conjunct1, rule_format, OF ret c]
  have replaced: "\<exists>ras. ?r = Object ras {} \<and>
      (\<exists>t'. dynamicReplace unifyExact (List (Primitive Text)) (List DynamicPseudoType) = Inr t' \<and>
         map_of ras ''c'' = Some t')"
    by (simp only: ic option.case)
  from dynamicReplace_object_to_object [of unifyExact ?ias "{}" ?oas "{}" ?r "''b''" DynamicPseudoType,
      THEN conjunct2, THEN mp, OF nested]
  have total: "\<exists>ras. dynamicReplace unifyExact (Object ?ias {}) (Object ?oas {}) = Inr (Object ras {}) \<and>
      map fst ras = [''a'', ''b'', ''c'']"
    by simp
  from ret b nb kept c ic replaced total show ?thesis
    by (intro conjI)
qed

text \<open>
  C7. For a Tuple target and a Tuple source of at least the same arity, the call returns
  \<open>r\<close> exactly when \<open>r\<close> is a Tuple of the arity of the target whose element at each
  position \<open>i\<close> is what \<open>dynamicReplace\<close> returns on the element types of the source and
  of the target at \<open>i\<close>.
\<close>

theorem dynamicReplace_tuple_to_tuple:
  "length oes \<le> length ies \<Longrightarrow>
   (dynamicReplace U (Tuple ies) (Tuple oes) = Inr r \<longleftrightarrow>
     (\<exists>ts. r = Tuple ts \<and> length ts = length oes \<and>
        (\<forall>i < length oes. dynamicReplace U (ies ! i) (oes ! i) = Inr (ts ! i))))"
  by (rule tuple_against_tuple)

theorem dynamicReplace_tuple_to_tuple_witness:
  "length [DynamicPseudoType, List DynamicPseudoType]
     \<le> length [Primitive Number, List (Primitive Text), Primitive Boolean] \<and>
   dynamicReplace unifyExact (Tuple [Primitive Number, List (Primitive Text), Primitive Boolean])
     (Tuple [DynamicPseudoType, List DynamicPseudoType])
     = Inr (Tuple [Primitive Number, List (Primitive Text)])"
proof -
  have len: "length [DynamicPseudoType, List DynamicPseudoType]
     \<le> length [Primitive Number, List (Primitive Text), Primitive Boolean]"
    by simp
  have "\<exists>ts. Tuple [Primitive Number, List (Primitive Text)] = Tuple ts \<and>
      length ts = length [DynamicPseudoType, List DynamicPseudoType] \<and>
      (\<forall>i < length [DynamicPseudoType, List DynamicPseudoType].
         dynamicReplace unifyExact ([Primitive Number, List (Primitive Text), Primitive Boolean] ! i)
           ([DynamicPseudoType, List DynamicPseudoType] ! i) = Inr (ts ! i))"
    by (simp add: dynamicReplace.simps less_Suc_eq numeral_2_eq_2)
  with dynamicReplace_tuple_to_tuple [OF len, of unifyExact "Tuple [Primitive Number, List (Primitive Text)]"]
  have "dynamicReplace unifyExact (Tuple [Primitive Number, List (Primitive Text), Primitive Boolean])
     (Tuple [DynamicPseudoType, List DynamicPseudoType])
     = Inr (Tuple [Primitive Number, List (Primitive Text)])"
    by blast
  with len show ?thesis by blast
qed









text \<open>
  C10, as amended. Let \<open>in\<close> be neither the placeholder nor the absent type. For a Map
  target, if \<open>in\<close> is neither a Map nor an Object, \<open>dynamicReplace\<close> returns the Map of
  the absent type; for a Set and for a List target, if \<open>in\<close> is neither a Set, a List
  nor a Tuple, it returns the Set, respectively the List, of the absent type. It does so
  without a fault.
\<close>

theorem dynamicReplace_unrecognized_source:
  "tin \<noteq> DynamicPseudoType \<Longrightarrow> tin \<noteq> NilType \<Longrightarrow>
   (\<not> IsMapType tin \<and> \<not> IsObjectType tin \<longrightarrow> dynamicReplace U tin (Map oe) = Inr (Map NilType)) \<and>
   (\<not> IsSetType tin \<and> \<not> IsListType tin \<and> \<not> IsTupleType tin \<longrightarrow>
      dynamicReplace U tin (Set oe) = Inr (Set NilType) \<and>
      dynamicReplace U tin (List oe) = Inr (List NilType))"
  by (cases tin) (simp_all add: dynamicReplace_concrete)

theorem dynamicReplace_unrecognized_source_witness:
  "Primitive Number \<noteq> DynamicPseudoType \<and> Primitive Number \<noteq> NilType \<and>
   \<not> IsMapType (Primitive Number) \<and> \<not> IsObjectType (Primitive Number) \<and>
   \<not> IsSetType (Primitive Number) \<and> \<not> IsListType (Primitive Number) \<and>
   \<not> IsTupleType (Primitive Number) \<and>
   dynamicReplace unifyExact (Primitive Number) (Map (Primitive Text)) = Inr (Map NilType) \<and>
   dynamicReplace unifyExact (Primitive Number) (Set (Primitive Text)) = Inr (Set NilType) \<and>
   dynamicReplace unifyExact (Primitive Number) (List (Primitive Text)) = Inr (List NilType)"
  using dynamicReplace_unrecognized_source [of "Primitive Number" unifyExact "Primitive Text"]
  by simp

text \<open>
  C10 as it is stated fails at the placeholder for a source: the placeholder is neither
  a Map nor an Object, and the short circuit returns the target, \<open>Map Text\<close>, not the
  Map of the absent type.
\<close>

theorem dynamicReplace_unrecognized_source_counterexample:
  "\<not> IsMapType DynamicPseudoType \<and> \<not> IsObjectType DynamicPseudoType \<and>
   dynamicReplace unifyExact DynamicPseudoType (Map (Primitive Text)) = Inr (Map (Primitive Text)) \<and>
   dynamicReplace unifyExact DynamicPseudoType (Map (Primitive Text)) \<noteq> Inr (Map NilType)"
  by (simp add: dynamicReplace.simps)

end
